theory Spec2Isabelle
  imports Main "HOL-Library.Multiset"
begin

section \<open>Data model (src/lib/gallery-store.ts)\<close>

text \<open>
  \<^verbatim>\<open>interface GalleryItem\<close>: the mandatory fields \<^verbatim>\<open>id\<close>, \<^verbatim>\<open>imageUrl\<close>, \<^verbatim>\<open>title\<close>,
  \<^verbatim>\<open>description\<close> and the optional fields \<^verbatim>\<open>alt?\<close>, \<^verbatim>\<open>order?\<close>, \<^verbatim>\<open>featured?\<close>.
  An optional field that is \<^verbatim>\<open>undefined\<close> is \<open>None\<close>. The fields other than \<^verbatim>\<open>id\<close> form
  the record \<open>ItemFields\<close>, which is the type \<^verbatim>\<open>Omit<GalleryItem, "id">\<close> of the
  manager's form state; \<open>GalleryItem\<close> extends it by the identifier (written \<open>id_item\<close>,
  since \<open>id\<close> is the identity function of HOL). Numbers are integers: identifiers come
  from \<^verbatim>\<open>Date.now()\<close> and orders from array indices.
\<close>

record ItemFields =
  imageUrl :: string
  title :: string
  description :: string
  alt :: "string option"
  order :: "int option"
  featured :: "bool option"

record GalleryItem = ItemFields +
  id_item :: int

datatype GalleryType = Hero | Eventos | Actividades | Propuestas_accion

text \<open>The string a \<^verbatim>\<open>GalleryType\<close> is at run time, as the template literals print it.\<close>

fun typeName :: "GalleryType \<Rightarrow> string" where
  "typeName Hero = ''hero''"
| "typeName Eventos = ''eventos''"
| "typeName Actividades = ''actividades''"
| "typeName Propuestas_accion = ''propuestas-accion''"

text \<open>The storage key \<^verbatim>\<open>`gallery-${galleryType}`\<close>.\<close>

definition storage_key :: "GalleryType \<Rightarrow> string" where
  "storage_key galleryType = ''gallery-'' @ typeName galleryType"

text \<open>
  \<^verbatim>\<open>INITIAL_GALLERIES\<close>, the seed data. The accented letters of the Spanish texts are
  single UTF-16 code units below 256, written here by their code.
\<close>

definition INITIAL_GALLERIES :: "GalleryType \<Rightarrow> GalleryItem list" where
  "INITIAL_GALLERIES galleryType = (case galleryType of
     Hero \<Rightarrow>
      [\<lparr>imageUrl = ''/placeholder.svg?height=600&width=800'',
        title = ''Julia Villag'' @ [CHR 0xF3] @ ''mez en campa'' @ [CHR 0xF1] @ ''a'',
        description = ''Trabajando por un mejor futuro para nuestra comunidad'',
        alt = Some (''Julia Villag'' @ [CHR 0xF3] @ ''mez en campa'' @ [CHR 0xF1] @ ''a''),
        order = Some 0, featured = None, id_item = 1\<rparr>,
       \<lparr>imageUrl = ''/placeholder.svg?height=600&width=800'',
        title = ''Reuni'' @ [CHR 0xF3] @ ''n con la comunidad'',
        description = ''Escuchando las necesidades de los ciudadanos'',
        alt = Some (''Reuni'' @ [CHR 0xF3] @ ''n con la comunidad''),
        order = Some 1, featured = None, id_item = 2\<rparr>,
       \<lparr>imageUrl = ''/placeholder.svg?height=600&width=800'',
        title = ''Propuestas para el futuro'',
        description = ''Presentando nuestras propuestas para el desarrollo'',
        alt = Some ''Propuestas para el futuro'',
        order = Some 2, featured = None, id_item = 3\<rparr>]
   | Eventos \<Rightarrow>
      [\<lparr>imageUrl = ''/placeholder.svg?height=400&width=600'',
        title = ''Visita a la comunidad'',
        description = ''Reuni'' @ [CHR 0xF3] @ ''n con l'' @ [CHR 0xED]
          @ ''deres comunitarios para discutir necesidades locales.'',
        alt = None, order = Some 0, featured = None, id_item = 1\<rparr>,
       \<lparr>imageUrl = ''/placeholder.svg?height=400&width=600'',
        title = ''Evento comunitario'',
        description = ''Participaci'' @ [CHR 0xF3] @ ''n en evento comunitario local.'',
        alt = None, order = Some 1, featured = None, id_item = 2\<rparr>]
   | Actividades \<Rightarrow>
      [\<lparr>imageUrl = ''/placeholder.svg?height=400&width=600'',
        title = ''Foro pol'' @ [CHR 0xED] @ ''tico'',
        description = ''Participaci'' @ [CHR 0xF3] @ ''n en foro sobre pol'' @ [CHR 0xED]
          @ ''ticas p'' @ [CHR 0xFA] @ ''blicas.'',
        alt = None, order = Some 0, featured = None, id_item = 1\<rparr>,
       \<lparr>imageUrl = ''/placeholder.svg?height=400&width=600'',
        title = ''Reuni'' @ [CHR 0xF3] @ ''n de trabajo'',
        description = ''Reuni'' @ [CHR 0xF3]
          @ ''n con equipo de trabajo para planificar estrategias.'',
        alt = None, order = Some 1, featured = None, id_item = 2\<rparr>]
   | Propuestas_accion \<Rightarrow>
      [\<lparr>imageUrl = ''/placeholder.svg?height=400&width=600'',
        title = ''Proyecto de salud'',
        description = ''Inauguraci'' @ [CHR 0xF3] @ ''n de nueva cl'' @ [CHR 0xED]
          @ ''nica comunitaria para mejorar servicios de salud.'',
        alt = None, order = Some 0, featured = None, id_item = 1\<rparr>,
       \<lparr>imageUrl = ''/placeholder.svg?height=400&width=600'',
        title = ''Programa educativo'',
        description = ''Lanzamiento de programa educativo para j'' @ [CHR 0xF3] @ ''venes.'',
        alt = None, order = Some 1, featured = None, id_item = 2\<rparr>])"

section \<open>The browser: local storage, events, console\<close>

text \<open>
  A value of \<^verbatim>\<open>localStorage\<close> is a text. \<^verbatim>\<open>JSON.stringify\<close> and \<^verbatim>\<open>JSON.parse\<close> belong to the
  platform, not to the repository, and are modelled by their contract on item lists:
  \<open>Encoded xs\<close> is the text \<^verbatim>\<open>JSON.stringify\<close> gives for the list \<open>xs\<close>, which \<^verbatim>\<open>JSON.parse\<close>
  reads back as \<open>xs\<close> (an \<^verbatim>\<open>undefined\<close> field is left out of the text and is absent, hence
  \<^verbatim>\<open>undefined\<close>, after parsing); \<open>Malformed s\<close> is any other text \<open>s\<close>, on which
  \<^verbatim>\<open>JSON.parse(...) as GalleryItem[]\<close> followed by \<^verbatim>\<open>.sort\<close> throws (a text that is not
  JSON, or the JSON of something that is not an array). A text that parses to an array of
  other things than items is outside the type \<^verbatim>\<open>GalleryItem[]\<close> the source casts to, and
  outside the model.
\<close>

datatype json_text = Malformed string | Encoded "GalleryItem list"

fun JSON_stringify :: "GalleryItem list \<Rightarrow> json_text" where
  "JSON_stringify xs = Encoded xs"

fun JSON_parse :: "json_text \<Rightarrow> GalleryItem list option" where
  "JSON_parse (Malformed s) = None"
| "JSON_parse (Encoded xs) = Some xs"

text \<open>A string in a condition: the empty string is falsy, every other string truthy.\<close>

fun truthy_text :: "json_text \<Rightarrow> bool" where
  "truthy_text (Malformed s) = (s \<noteq> [])"
| "truthy_text (Encoded xs) = True"

text \<open>
  The state the store works on. \<open>window_defined\<close> is \<^verbatim>\<open>typeof window !== "undefined"\<close>
  (false when the module runs on the server); \<open>localStorage\<close> maps keys to texts
  (\<^verbatim>\<open>getItem\<close> gives \<^verbatim>\<open>null\<close>, here \<open>None\<close>, for an absent key); \<open>storage_accepts\<close> says
  whether \<^verbatim>\<open>setItem\<close> of a key and text succeeds (it throws when the quota is exceeded);
  \<open>events\<close> is the sequence of \<^verbatim>\<open>gallery-updated\<close> events dispatched so far, each with
  its \<^verbatim>\<open>detail\<close>; \<open>console\<close> is the sequence of \<^verbatim>\<open>console.error\<close> messages.
\<close>

record world =
  window_defined :: bool
  localStorage :: "string \<Rightarrow> json_text option"
  storage_accepts :: "string \<Rightarrow> json_text \<Rightarrow> bool"
  events :: "(GalleryType \<times> GalleryItem list) list"
  console :: "string list"

definition console_error :: "string \<Rightarrow> world \<Rightarrow> world" where
  "console_error msg w = w\<lparr>console := console w @ [msg]\<rparr>"

section \<open>The store (src/lib/gallery-store.ts)\<close>

text \<open>\<^verbatim>\<open>a.order || 0\<close>: an absent order counts as 0 (and 0 is 0).\<close>

definition order_or_0 :: "GalleryItem \<Rightarrow> int" where
  "order_or_0 a = (case order a of None \<Rightarrow> 0 | Some n \<Rightarrow> n)"

text \<open>
  \<^verbatim>\<open>items.sort((a, b) => (a.order || 0) - (b.order || 0))\<close>: \<^verbatim>\<open>Array.prototype.sort\<close> is
  stable, as \<open>sort_key\<close> is.
\<close>

definition sort_by_order :: "GalleryItem list \<Rightarrow> GalleryItem list" where
  "sort_by_order items = sort_key order_or_0 items"

text \<open>
  \<^verbatim>\<open>getGalleryItems\<close>. The function returns a list and may log, so the model returns the
  list with the state after the call.
\<close>

definition getGalleryItems :: "GalleryType \<Rightarrow> world \<Rightarrow> GalleryItem list \<times> world" where
  "getGalleryItems galleryType w =
     (if \<not> window_defined w then (INITIAL_GALLERIES galleryType, w)
      else case localStorage w (storage_key galleryType) of
          None \<Rightarrow> (INITIAL_GALLERIES galleryType, w)
        | Some storedItems \<Rightarrow>
            if truthy_text storedItems then
              (case JSON_parse storedItems of
                 Some items \<Rightarrow> (sort_by_order items, w)
               | None \<Rightarrow>
                   (INITIAL_GALLERIES galleryType,
                    console_error (''Error loading gallery '' @ typeName galleryType
                                   @ '' from localStorage:'') w))
            else (INITIAL_GALLERIES galleryType, w))"

text \<open>\<^verbatim>\<open>xs.map((item, index) => f(item, index))\<close>.\<close>

definition map_index :: "('a \<Rightarrow> nat \<Rightarrow> 'b) \<Rightarrow> 'a list \<Rightarrow> 'b list" where
  "map_index f xs = map (\<lambda>(index, item). f item index) (enumerate 0 xs)"

text \<open>
  \<^verbatim>\<open>items.map((item, index) => ({ ...item, order: item.order !== undefined ? item.order : index }))\<close>
\<close>

definition itemsWithOrder :: "GalleryItem list \<Rightarrow> GalleryItem list" where
  "itemsWithOrder items =
     map_index (\<lambda>item index.
        item\<lparr>order := Some (case order item of Some n \<Rightarrow> n | None \<Rightarrow> int index)\<rparr>) items"

text \<open>
  \<^verbatim>\<open>saveGalleryItems\<close>. A \<^verbatim>\<open>setItem\<close> that throws leaves the storage as it was, skips the
  event, and is logged by the \<^verbatim>\<open>catch\<close>.
\<close>

definition saveGalleryItems :: "GalleryType \<Rightarrow> GalleryItem list \<Rightarrow> world \<Rightarrow> world" where
  "saveGalleryItems galleryType items w =
     (if \<not> window_defined w then w
      else let withOrder = itemsWithOrder items;
               key = storage_key galleryType;
               text = JSON_stringify withOrder
           in if storage_accepts w key text
              then w\<lparr>localStorage := (localStorage w)(key \<mapsto> text),
                     events := events w @ [(galleryType, withOrder)]\<rparr>
              else console_error (''Error saving gallery '' @ typeName galleryType
                                  @ '' to localStorage:'') w)"


text \<open>
  The callback of \<^verbatim>\<open>itemIds.map\<close> in \<^verbatim>\<open>reorderGalleryItems\<close>, run from index \<open>index\<close> on:
  \<open>Inl id\<close> is the \<^verbatim>\<open>throw new Error(...)\<close> for the first identifier \<open>id\<close> that
  \<^verbatim>\<open>items.find\<close> does not find.
\<close>

fun reorderedItems :: "GalleryItem list \<Rightarrow> nat \<Rightarrow> int list \<Rightarrow> int + GalleryItem list" where
  "reorderedItems items index [] = Inr []"
| "reorderedItems items index (i # itemIds) =
     (case find (\<lambda>x. id_item x = i) items of
        None \<Rightarrow> Inl i
      | Some item \<Rightarrow>
          (case reorderedItems items (Suc index) itemIds of
             Inl e \<Rightarrow> Inl e
           | Inr rest \<Rightarrow> Inr (item\<lparr>order := Some (int index)\<rparr> # rest)))"

definition reorderGalleryItems :: "GalleryType \<Rightarrow> int list \<Rightarrow> world \<Rightarrow> world" where
  "reorderGalleryItems galleryType itemIds w =
     (if \<not> window_defined w then w
      else let (items, w1) = getGalleryItems galleryType w
           in case reorderedItems items 0 itemIds of
                Inr reordered \<Rightarrow> saveGalleryItems galleryType reordered w1
              | Inl missing \<Rightarrow>
                  console_error (''Error reordering gallery items in '' @ typeName galleryType
                                 @ '':'') w1)"

section \<open>The gallery editor (src/components/gallery-manager.tsx)\<close>

text \<open>
  The component's state (its \<^verbatim>\<open>useState\<close> cells) together with the effects its handlers
  leave behind: \<open>timers\<close> are the callbacks handed to \<^verbatim>\<open>setTimeout\<close>, each with its delay
  in milliseconds; \<open>errors_logged\<close> are the \<^verbatim>\<open>console.error\<close> messages; \<open>updates\<close> are the
  lists handed to the parent through the \<^verbatim>\<open>onUpdateGallery\<close> prop, in the order of the
  calls (the parent is the one that persists them).
\<close>

datatype timer = Clear_uploadSuccess | Clear_uploadError

record manager =
  galleryItems :: "GalleryItem list"
  newItem :: ItemFields
  uploadSuccess :: bool
  uploadError :: string
  isProcessing :: bool
  editingItem :: "GalleryItem option"
  isEditDialogOpen :: bool
  timers :: "(timer \<times> nat) list"
  errors_logged :: "string list"
  updates :: "GalleryItem list list"

text \<open>The form as \<^verbatim>\<open>useState\<close> initialises it and as a successful Add resets it.\<close>

definition empty_form :: ItemFields where
  "empty_form = \<lparr>imageUrl = ''/placeholder.svg?height=400&width=600'', title = [],
     description = [], alt = None, order = None, featured = None\<rparr>"

text \<open>\<^verbatim>\<open>s.startsWith(p)\<close>.\<close>

definition startsWith :: "string \<Rightarrow> string \<Rightarrow> bool" where
  "startsWith s p = (take (length p) s = p)"

text \<open>
  \<^verbatim>\<open>handleAddGalleryItem\<close>. What the handler takes from outside is a parameter:
  \<open>now\<close> is \<^verbatim>\<open>Date.now()\<close>; \<open>resolve url\<close> is the outcome of the three awaited steps
  \<^verbatim>\<open>fetch(url)\<close>, \<^verbatim>\<open>response.blob()\<close>, \<^verbatim>\<open>fileToDataUrl(...)\<close> (the last is the collaborator of
  \<^verbatim>\<open>@/lib/image-utils\<close>), \<open>Some base64\<close> when all three succeed and \<open>None\<close> when one of
  them rejects; \<open>onUpdateGallery items\<close> tells whether the parent's callback returns
  (\<open>False\<close>: it throws, which the outer \<^verbatim>\<open>catch\<close> handles). The \<^verbatim>\<open>finally\<close> clears
  \<open>isProcessing\<close> on both ways out of the \<^verbatim>\<open>try\<close>.
\<close>

definition handleAddGalleryItem ::
  "int \<Rightarrow> (string \<Rightarrow> string option) \<Rightarrow> (GalleryItem list \<Rightarrow> bool) \<Rightarrow> manager \<Rightarrow> manager" where
  "handleAddGalleryItem now resolve onUpdateGallery m =
     (if title (newItem m) \<noteq> [] \<and> description (newItem m) \<noteq> [] then
        let m1 = m\<lparr>isProcessing := True\<rparr>;
            newGalleryItem =
              \<lparr>imageUrl = imageUrl (newItem m), title = title (newItem m),
               description = description (newItem m), alt = alt (newItem m),
               order = Some (int (length (galleryItems m))), featured = featured (newItem m),
               id_item = now\<rparr>;
            (newGalleryItem, m2) =
              (if startsWith (imageUrl (newItem m)) ''blob:'' then
                 (case resolve (imageUrl (newItem m)) of
                    Some base64 \<Rightarrow> (newGalleryItem\<lparr>imageUrl := base64\<rparr>, m1)
                  | None \<Rightarrow>
                      (newGalleryItem,
                       m1\<lparr>errors_logged :=
                            errors_logged m1 @ [''Error al convertir blob a base64:'']\<rparr>))
               else (newGalleryItem, m1));
            updatedItems = galleryItems m @ [newGalleryItem];
            m3 = m2\<lparr>galleryItems := updatedItems, updates := updates m2 @ [updatedItems]\<rparr>
        in (if onUpdateGallery updatedItems then
              m3\<lparr>newItem := empty_form, uploadSuccess := True,
                 timers := timers m3 @ [(Clear_uploadSuccess, 3000)],
                 isProcessing := False\<rparr>
            else
              m3\<lparr>errors_logged := errors_logged m3 @ [''Error al agregar imagen:''],
                 uploadError := ''Error al procesar la imagen. Intente nuevamente.'',
                 timers := timers m3 @ [(Clear_uploadError, 3000)],
                 isProcessing := False\<rparr>)
      else
        m\<lparr>uploadError := ''Por favor complete todos los campos'',
          timers := timers m @ [(Clear_uploadError, 3000)]\<rparr>)"

text \<open>
  The handlers below end with the call of \<^verbatim>\<open>onUpdateGallery\<close> and have no \<^verbatim>\<open>try\<close>: the state
  is set and the call recorded whether or not the parent's callback returns.
\<close>

definition handleDeleteItem :: "int \<Rightarrow> manager \<Rightarrow> manager" where
  "handleDeleteItem i m =
     (let updatedItems = filter (\<lambda>item. id_item item \<noteq> i) (galleryItems m);
          reorderedItems = map_index (\<lambda>item index. item\<lparr>order := Some (int index)\<rparr>) updatedItems
      in m\<lparr>galleryItems := reorderedItems, updates := updates m @ [reorderedItems]\<rparr>)"

definition handleEditItem :: "GalleryItem \<Rightarrow> manager \<Rightarrow> manager" where
  "handleEditItem item m = m\<lparr>editingItem := Some item, isEditDialogOpen := True\<rparr>"


text \<open>
  \<^verbatim>\<open>handleMoveUp\<close> and \<^verbatim>\<open>handleMoveDown\<close>. The index is a JavaScript number. Past the
  guard the source reads and writes \<^verbatim>\<open>newItems[index]\<close> and its neighbour unchecked: for a
  position outside the array the read is \<^verbatim>\<open>undefined\<close> and the object built from it has
  an \<^verbatim>\<open>order\<close> and nothing else, so the array is no longer a list of \<^verbatim>\<open>GalleryItem\<close>.
  That outcome is \<open>None\<close>; the buttons of the component pass positions of the list only.
\<close>

definition handleMoveUp :: "int \<Rightarrow> manager \<Rightarrow> manager option" where
  "handleMoveUp index m =
     (if index \<le> 0 then Some m
      else if index < int (length (galleryItems m)) then
        let newItems = galleryItems m;
            itemToMove = (newItems ! nat index)\<lparr>order := Some (index - 1)\<rparr>;
            itemToReplace = (newItems ! nat (index - 1))\<lparr>order := Some index\<rparr>;
            newItems = newItems[nat index := itemToReplace];
            newItems = newItems[nat (index - 1) := itemToMove]
        in Some (m\<lparr>galleryItems := newItems, updates := updates m @ [newItems]\<rparr>)
      else None)"

definition handleMoveDown :: "int \<Rightarrow> manager \<Rightarrow> manager option" where
  "handleMoveDown index m =
     (if index \<ge> int (length (galleryItems m)) - 1 then Some m
      else if 0 \<le> index then
        let newItems = galleryItems m;
            itemToMove = (newItems ! nat index)\<lparr>order := Some (index + 1)\<rparr>;
            itemToReplace = (newItems ! nat (index + 1))\<lparr>order := Some index\<rparr>;
            newItems = newItems[nat index := itemToReplace];
            newItems = newItems[nat (index + 1) := itemToMove]
        in Some (m\<lparr>galleryItems := newItems, updates := updates m @ [newItems]\<rparr>)
      else None)"

text \<open>\<^verbatim>\<open>!item.featured\<close>: an absent flag and \<^verbatim>\<open>false\<close> both negate to \<^verbatim>\<open>true\<close>.\<close>

definition not_featured :: "GalleryItem \<Rightarrow> bool" where
  "not_featured item = (case featured item of None \<Rightarrow> True | Some b \<Rightarrow> \<not> b)"

definition handleToggleFeatured :: "GalleryItem \<Rightarrow> manager \<Rightarrow> manager" where
  "handleToggleFeatured item m =
     (let updatedItem = item\<lparr>featured := Some (not_featured item)\<rparr>;
          updatedItems =
            map (\<lambda>i. if id_item i = id_item item then updatedItem else i) (galleryItems m)
      in m\<lparr>galleryItems := updatedItems, updates := updates m @ [updatedItems]\<rparr>)"

section \<open>Concrete states used by the examples\<close>

text \<open>An item with the given identifier and order, and a form holding a transient image.\<close>

definition sample :: "int \<Rightarrow> int option \<Rightarrow> GalleryItem" where
  "sample i ord = \<lparr>imageUrl = ''/img.png'', title = ''T'', description = ''D'', alt = None,
     order = ord, featured = None, id_item = i\<rparr>"

definition blob_form :: ItemFields where
  "blob_form = \<lparr>imageUrl = ''blob:http://localhost:3000/0a1b'', title = ''A'',
     description = ''d'', alt = None, order = None, featured = None\<rparr>"

text \<open>
  A browser whose storage holds \<open>st\<close> and accepts every write; the same with one gallery
  stored; a browser whose storage holds \<open>st\<close> and refuses every write, as one at its
  quota does; the server, where there is no window; the manager as it is mounted with its
  initial items and a form.
\<close>

definition browser :: "(string \<Rightarrow> json_text option) \<Rightarrow> world" where
  "browser st = \<lparr>window_defined = True, localStorage = st, storage_accepts = (\<lambda>k v. True),
     events = [], console = []\<rparr>"

definition stored :: "GalleryType \<Rightarrow> GalleryItem list \<Rightarrow> world" where
  "stored t xs = browser ((\<lambda>k. None)(storage_key t \<mapsto> Encoded xs))"

definition refusing :: "(string \<Rightarrow> json_text option) \<Rightarrow> world" where
  "refusing st = \<lparr>window_defined = True, localStorage = st, storage_accepts = (\<lambda>k v. False),
     events = [], console = []\<rparr>"

definition server :: world where
  "server = \<lparr>window_defined = False, localStorage = (\<lambda>k. None),
     storage_accepts = (\<lambda>k v. False), events = [], console = []\<rparr>"

definition mounted :: "GalleryItem list \<Rightarrow> ItemFields \<Rightarrow> manager" where
  "mounted initialItems form = \<lparr>galleryItems = initialItems, newItem = form,
     uploadSuccess = False, uploadError = [], isProcessing = False, editingItem = None,
     isEditDialogOpen = False, timers = [], errors_logged = [], updates = []\<rparr>"

lemmas example_defs = sample_def browser_def stored_def mounted_def storage_key_def Let_def

section \<open>Facts about the store\<close>

lemma length_map_index [simp]: "length (map_index f xs) = length xs"
  by (simp add: map_index_def)

lemma nth_map_index [simp]: "k < length xs \<Longrightarrow> map_index f xs ! k = f (xs ! k) k"
  by (simp add: map_index_def nth_enumerate_eq)

lemma length_itemsWithOrder [simp]: "length (itemsWithOrder items) = length items"
  by (simp add: itemsWithOrder_def)

lemma nth_itemsWithOrder:
  "k < length items \<Longrightarrow> itemsWithOrder items ! k =
     (items ! k)\<lparr>order := Some (case order (items ! k) of Some n \<Rightarrow> n | None \<Rightarrow> int k)\<rparr>"
  by (simp add: itemsWithOrder_def)

lemma order_itemsWithOrder:
  "k < length items \<Longrightarrow> order (itemsWithOrder items ! k) =
     Some (case order (items ! k) of Some n \<Rightarrow> n | None \<Rightarrow> int k)"
  by (simp add: nth_itemsWithOrder)

text \<open>An item that has an order goes through \<open>itemsWithOrder\<close> untouched.\<close>

lemma itemsWithOrder_explicit:
  "itemsWithOrder items =
     map (\<lambda>(k, item). if order item = None then item\<lparr>order := Some (int k)\<rparr> else item)
       (enumerate 0 items)"
  unfolding itemsWithOrder_def map_index_def
  by (rule map_cong) (auto split: option.splits)

lemma order_or_0_explicit:
  "order_or_0 = (\<lambda>a. case order a of None \<Rightarrow> 0 | Some n \<Rightarrow> n)"
  by (rule ext) (simp add: order_or_0_def)

text \<open>Where every order is defined, ascending keys are ascending orders.\<close>

lemma sorted_orders:
  assumes "\<And>a. a \<in> set ys \<Longrightarrow> order a \<noteq> None"
    and "sorted (map (\<lambda>a. case order a of None \<Rightarrow> 0 | Some n \<Rightarrow> n) ys)"
  shows "\<exists>ks. map order ys = map Some ks \<and> sorted ks"
proof -
  let ?ks = "map (\<lambda>a. case order a of None \<Rightarrow> (0::int) | Some n \<Rightarrow> n) ys"
  have "order a = Some (case order a of None \<Rightarrow> 0 | Some n \<Rightarrow> n)" if "a \<in> set ys" for a
    using assms(1) [OF that] by (cases "order a") simp_all
  then have "map order ys = map Some ?ks"
    by (simp add: comp_def)
  with assms(2) show ?thesis by blast
qed

lemma itemsWithOrder_positions:
  assumes "\<And>k. k < length items \<Longrightarrow> order (items ! k) = None \<or> order (items ! k) = Some (int k)"
  shows "map order (itemsWithOrder items) = map (\<lambda>k. Some (int k)) [0..<length items]"
proof (rule nth_equalityI)
  show "length (map order (itemsWithOrder items)) =
          length (map (\<lambda>k. Some (int k)) [0..<length items])"
    by simp
next
  fix k assume "k < length (map order (itemsWithOrder items))"
  then have k: "k < length items" by simp
  from assms [OF k]
  show "map order (itemsWithOrder items) ! k = map (\<lambda>k. Some (int k)) [0..<length items] ! k"
    using k by (auto simp: order_itemsWithOrder)
qed


text \<open>Reading never touches the storage, the events or the environment.\<close>

lemma getGalleryItems_storage:
  "localStorage (snd (getGalleryItems t w)) = localStorage w"
  "events (snd (getGalleryItems t w)) = events w"
  "window_defined (snd (getGalleryItems t w)) = window_defined w"
  "storage_accepts (snd (getGalleryItems t w)) = storage_accepts w"
  by (simp_all add: getGalleryItems_def console_error_def split: option.splits)

lemma getGalleryItems_Encoded:
  assumes "window_defined w" and "localStorage w (storage_key t) = Some (Encoded xs)"
  shows "getGalleryItems t w = (sort_key order_or_0 xs, w)"
  using assms by (simp add: getGalleryItems_def sort_by_order_def)

lemma saveGalleryItems_written:
  assumes "window_defined w"
    and "storage_accepts w (storage_key t) (Encoded (itemsWithOrder items))"
  shows "localStorage (saveGalleryItems t items w) =
           (localStorage w)(storage_key t \<mapsto> Encoded (itemsWithOrder items))"
    and "events (saveGalleryItems t items w) = events w @ [(t, itemsWithOrder items)]"
    and "console (saveGalleryItems t items w) = console w"
    and "window_defined (saveGalleryItems t items w)"
  using assms by (simp_all add: saveGalleryItems_def Let_def)

text \<open>One identifier that \<^verbatim>\<open>find\<close> misses makes the whole \<^verbatim>\<open>map\<close> throw.\<close>

lemma reorderedItems_missing:
  "i \<in> set itemIds \<Longrightarrow> i \<notin> id_item ` set items \<Longrightarrow>
     \<exists>e. reorderedItems items index itemIds = Inl e"
proof (induction itemIds arbitrary: index)
  case Nil
  then show ?case by simp
next
  case (Cons a itemIds)
  show ?case
  proof (cases "find (\<lambda>x. id_item x = a) items")
    case None
    then show ?thesis by simp
  next
    case (Some item)
    then have "a \<in> id_item ` set items"
      by (auto simp: find_Some_iff)
    with Cons.prems have "i \<in> set itemIds" by auto
    from Cons.IH [OF this Cons.prems(2)]
    obtain e where "reorderedItems items (Suc index) itemIds = Inl e"
      by blast
    with Some show ?thesis by simp
  qed
qed


section \<open>Facts about the editor\<close>

lemma map_index_order_positions:
  "map order (map_index (\<lambda>item index. item\<lparr>order := Some (int index)\<rparr>) xs) =
     map (\<lambda>k. Some (int k)) [0..<length xs]"
  by (rule nth_equalityI) simp_all

lemma map_index_order_erased:
  "map (\<lambda>x. x\<lparr>order := None\<rparr>) (map_index (\<lambda>item index. item\<lparr>order := Some (int index)\<rparr>) xs) =
     map (\<lambda>x. x\<lparr>order := None\<rparr>) xs"
  by (rule nth_equalityI) simp_all

lemma set_map_index_id:
  "id_item ` set (map_index (\<lambda>item index. item\<lparr>order := Some (int index)\<rparr>) xs) =
     id_item ` set xs"
proof -
  have "map id_item (map_index (\<lambda>item index. item\<lparr>order := Some (int index)\<rparr>) xs) =
          map id_item xs"
    by (rule nth_equalityI) simp_all
  then have "set (map id_item (map_index (\<lambda>item index. item\<lparr>order := Some (int index)\<rparr>) xs)) =
          set (map id_item xs)"
    by simp
  then show ?thesis by simp
qed

lemma handleMoveUp_swap:
  assumes "0 < i" and "i < length (galleryItems m)"
  shows "\<exists>m'. handleMoveUp (int i) m = Some m'
           \<and> updates m' = updates m @ [galleryItems m']
           \<and> length (galleryItems m') = length (galleryItems m)
           \<and> galleryItems m' ! (i - 1) = (galleryItems m ! i)\<lparr>order := Some (int i - 1)\<rparr>
           \<and> galleryItems m' ! i = (galleryItems m ! (i - 1))\<lparr>order := Some (int i)\<rparr>
           \<and> (\<forall>k<length (galleryItems m). k \<noteq> i \<and> k \<noteq> i - 1 \<longrightarrow>
                  galleryItems m' ! k = galleryItems m ! k)"
proof -
  have n: "nat (int i - 1) = i - 1" "nat (int i) = i" by simp_all
  let ?ys = "(galleryItems m)[i := (galleryItems m ! (i - 1))\<lparr>order := Some (int i)\<rparr>,
                i - 1 := (galleryItems m ! i)\<lparr>order := Some (int i - 1)\<rparr>]"
  have "handleMoveUp (int i) m = Some (m\<lparr>galleryItems := ?ys, updates := updates m @ [?ys]\<rparr>)"
    using assms by (simp add: handleMoveUp_def Let_def n)
  moreover have "?ys ! (i - 1) = (galleryItems m ! i)\<lparr>order := Some (int i - 1)\<rparr>"
    using assms by simp
  moreover have "?ys ! i = (galleryItems m ! (i - 1))\<lparr>order := Some (int i)\<rparr>"
    using assms by (simp add: nth_list_update)
  moreover have "\<forall>k<length (galleryItems m). k \<noteq> i \<and> k \<noteq> i - 1 \<longrightarrow>
      ?ys ! k = galleryItems m ! k"
    by simp
  ultimately show ?thesis by simp
qed

lemma handleMoveDown_swap:
  assumes "i + 1 < length (galleryItems m)"
  shows "\<exists>m'. handleMoveDown (int i) m = Some m'
           \<and> updates m' = updates m @ [galleryItems m']
           \<and> length (galleryItems m') = length (galleryItems m)
           \<and> galleryItems m' ! (i + 1) = (galleryItems m ! i)\<lparr>order := Some (int i + 1)\<rparr>
           \<and> galleryItems m' ! i = (galleryItems m ! (i + 1))\<lparr>order := Some (int i)\<rparr>
           \<and> (\<forall>k<length (galleryItems m). k \<noteq> i \<and> k \<noteq> i + 1 \<longrightarrow>
                  galleryItems m' ! k = galleryItems m ! k)"
proof -
  have n: "nat (int i + 1) = i + 1" "nat (int i) = i" by simp_all
  let ?ys = "(galleryItems m)[i := (galleryItems m ! (i + 1))\<lparr>order := Some (int i)\<rparr>,
                i + 1 := (galleryItems m ! i)\<lparr>order := Some (int i + 1)\<rparr>]"
  have "handleMoveDown (int i) m = Some (m\<lparr>galleryItems := ?ys, updates := updates m @ [?ys]\<rparr>)"
    using assms by (simp add: handleMoveDown_def Let_def n)
  moreover have "?ys ! (i + 1) = (galleryItems m ! i)\<lparr>order := Some (int i + 1)\<rparr>"
    using assms by simp
  moreover have "?ys ! i = (galleryItems m ! (i + 1))\<lparr>order := Some (int i)\<rparr>"
    using assms by (simp add: nth_list_update)
  moreover have "\<forall>k<length (galleryItems m). k \<noteq> i \<and> k \<noteq> i + 1 \<longrightarrow>
      ?ys ! k = galleryItems m ! k"
    by simp
  ultimately show ?thesis by simp
qed

text \<open>Where identifiers are distinct, having the identifier of an item is being that item.\<close>

lemma same_id_same_item:
  assumes "distinct (map id_item xs)" and "item \<in> set xs" and "j \<in> set xs"
  shows "id_item j = id_item item \<longleftrightarrow> j = item"
  using assms by (auto simp: distinct_map inj_on_def)

lemma toggle_once:
  assumes "distinct (map id_item (galleryItems m))" and "item \<in> set (galleryItems m)"
  shows "galleryItems (handleToggleFeatured item m) =
           map (\<lambda>j. if j = item then item\<lparr>featured := Some (not_featured item)\<rparr> else j)
             (galleryItems m)"
  unfolding handleToggleFeatured_def Let_def
  using same_id_same_item [OF assms] by (auto intro!: map_cong)

text \<open>An Add whose transient reference is resolved stores the durable encoding.\<close>

lemma add_blob_resolved:
  assumes "title (newItem m) \<noteq> []" and "description (newItem m) \<noteq> []"
    and "startsWith (imageUrl (newItem m)) ''blob:''"
    and "resolve (imageUrl (newItem m)) = Some base64"
  shows "galleryItems (handleAddGalleryItem now resolve onUpdateGallery m) =
           galleryItems m @
             [\<lparr>imageUrl = base64, title = title (newItem m),
               description = description (newItem m), alt = alt (newItem m),
               order = Some (int (length (galleryItems m))), featured = featured (newItem m),
               id_item = now\<rparr>]"
  using assms by (simp add: handleAddGalleryItem_def Let_def)

section \<open>The claims\<close>

subsection \<open>C1: orders in the persisted list\<close>

text \<open>
  Claim C1, as the code has it. After a write that \<^verbatim>\<open>saveGalleryItems\<close> persists (in the
  browser, with a storage that accepts the text), the persisted list has the length of the
  input and each of its items has a defined order: the order the input item carried, or
  its position when it carried none. The orders are therefore the positions
  \<open>0, 1, ..., n - 1\<close> whenever no input item carries an order other than its position.
\<close>

theorem saveGalleryItems_persisted_order:
  assumes "window_defined w"
    and "storage_accepts w (storage_key t) (Encoded (itemsWithOrder items))"
  shows "localStorage (saveGalleryItems t items w) (storage_key t) =
           Some (Encoded (itemsWithOrder items))
       \<and> length (itemsWithOrder items) = length items
       \<and> (\<forall>k<length items. order (itemsWithOrder items ! k) =
             Some (case order (items ! k) of Some n \<Rightarrow> n | None \<Rightarrow> int k))
       \<and> ((\<forall>k<length items. order (items ! k) = None \<or> order (items ! k) = Some (int k)) \<longrightarrow>
             map order (itemsWithOrder items) = map (\<lambda>k. Some (int k)) [0..<length items])"
  using assms
  by (simp add: saveGalleryItems_written order_itemsWithOrder itemsWithOrder_positions)

text \<open>Three items, the middle one carrying order 5: it keeps 5, the others get 0 and 2.\<close>

theorem saveGalleryItems_persisted_order_witness:
  "window_defined (browser (\<lambda>k. None))
   \<and> storage_accepts (browser (\<lambda>k. None)) (storage_key Hero)
        (Encoded (itemsWithOrder [sample 7 None, sample 8 (Some 5), sample 9 None]))
   \<and> localStorage (saveGalleryItems Hero [sample 7 None, sample 8 (Some 5), sample 9 None]
        (browser (\<lambda>k. None))) (storage_key Hero) =
       Some (Encoded [sample 7 (Some 0), sample 8 (Some 5), sample 9 (Some 2)])"
  using saveGalleryItems_persisted_order
    [of "browser (\<lambda>k. None)" Hero "[sample 7 None, sample 8 (Some 5), sample 9 None]"]
  by (simp add: itemsWithOrder_def map_index_def example_defs)

text \<open>
  The statement "the k-th persisted item has order k" fails for a one-item list whose item
  carries order 5: it is persisted at position 0 with order 5.
\<close>

theorem save_order_not_position:
  "localStorage (saveGalleryItems Hero [sample 1 (Some 5)] (browser (\<lambda>k. None))) (storage_key Hero) =
     Some (Encoded [sample 1 (Some 5)])
   \<and> order ([sample 1 (Some 5)] ! 0) \<noteq> Some 0"
  by (simp add: saveGalleryItems_def itemsWithOrder_def map_index_def example_defs)

subsection \<open>C2: Add with a transient image reference\<close>

text \<open>
  Claim C2 says that an Add whose transient image reference cannot be resolved commits
  nothing (the list is not updated, nothing is handed on for persistence, the failure is
  logged and shown as an error message), and that an item added with a \<^verbatim>\<open>blob:\<close> reference
  is stored with the durable encoding, never with the transient reference. The code does
  not keep it. In the Add below, into the empty gallery, the \<^verbatim>\<open>blob:\<close> reference cannot be
  resolved; the inner \<^verbatim>\<open>catch\<close> logs the failure and execution goes on: the list now holds
  the item with the \<^verbatim>\<open>blob:\<close> reference, that list went to the parent, the success flag
  is set and no error message is shown. The comment above the conversion gives its
  purpose (\<^verbatim>\<open>convertirla a base64 para persistencia\<close>), the message of the outer \<^verbatim>\<open>catch\<close>
  (\<^verbatim>\<open>Error al procesar la imagen. Intente nuevamente.\<close>) is the one the claim describes and
  is out of reach of a failed conversion, and the conversion in the item editor
  (\<^verbatim>\<open>edit-gallery-item.tsx\<close>) does stop with an error message when it fails.
\<close>

theorem add_with_failed_blob_conversion:
  "galleryItems (mounted [] blob_form) = []
 \<and> galleryItems (handleAddGalleryItem 1700000000000 (\<lambda>url. None) (\<lambda>items. True)
      (mounted [] blob_form)) =
     [\<lparr>imageUrl = ''blob:http://localhost:3000/0a1b'', title = ''A'', description = ''d'',
       alt = None, order = Some 0, featured = None, id_item = 1700000000000\<rparr>]
 \<and> updates (handleAddGalleryItem 1700000000000 (\<lambda>url. None) (\<lambda>items. True)
      (mounted [] blob_form)) =
     [[\<lparr>imageUrl = ''blob:http://localhost:3000/0a1b'', title = ''A'', description = ''d'',
        alt = None, order = Some 0, featured = None, id_item = 1700000000000\<rparr>]]
 \<and> uploadSuccess (handleAddGalleryItem 1700000000000 (\<lambda>url. None) (\<lambda>items. True)
      (mounted [] blob_form))
 \<and> uploadError (handleAddGalleryItem 1700000000000 (\<lambda>url. None) (\<lambda>items. True)
      (mounted [] blob_form)) = []
 \<and> errors_logged (handleAddGalleryItem 1700000000000 (\<lambda>url. None) (\<lambda>items. True)
      (mounted [] blob_form)) = [''Error al convertir blob a base64:'']"
  by (simp add: handleAddGalleryItem_def mounted_def blob_form_def startsWith_def Let_def)

subsection \<open>C3: reorder with an unknown identifier\<close>

text \<open>
  Claim C3. When the list of identifiers given to \<^verbatim>\<open>reorderGalleryItems\<close> holds an
  identifier that no item of the gallery (the list \<^verbatim>\<open>getGalleryItems\<close> returns) has, nothing
  of the reorder is applied: the storage is what it was and no event is dispatched. The
  function returns normally; in the browser the one thing it adds to what reading the
  gallery did is the message of its \<^verbatim>\<open>catch\<close>.
\<close>

theorem reorder_unknown_id_aborts:
  assumes "i \<in> set itemIds" and "i \<notin> id_item ` set (fst (getGalleryItems t w))"
  shows "localStorage (reorderGalleryItems t itemIds w) = localStorage w
       \<and> events (reorderGalleryItems t itemIds w) = events w
       \<and> (window_defined w \<longrightarrow>
            reorderGalleryItems t itemIds w =
              console_error (''Error reordering gallery items in '' @ typeName t @ '':'')
                (snd (getGalleryItems t w)))"
proof -
  obtain e where "reorderedItems (fst (getGalleryItems t w)) 0 itemIds = Inl e"
    using reorderedItems_missing [OF assms] by blast
  then show ?thesis
    by (simp add: reorderGalleryItems_def getGalleryItems_storage console_error_def
        case_prod_beta)
qed

text \<open>Identifier 7 is not in a stored gallery with the items 1 and 2.\<close>

theorem reorder_unknown_id_aborts_witness:
  "7 \<in> set [2, 7, 1]
   \<and> 7 \<notin> id_item ` set (fst (getGalleryItems Eventos
              (stored Eventos [sample 1 (Some 0), sample 2 (Some 1)])))
   \<and> localStorage (reorderGalleryItems Eventos [2, 7, 1]
        (stored Eventos [sample 1 (Some 0), sample 2 (Some 1)])) (storage_key Eventos) =
       Some (Encoded [sample 1 (Some 0), sample 2 (Some 1)])
   \<and> events (reorderGalleryItems Eventos [2, 7, 1]
        (stored Eventos [sample 1 (Some 0), sample 2 (Some 1)])) = []"
  using reorder_unknown_id_aborts
    [of 7 "[2, 7, 1]" Eventos "stored Eventos [sample 1 (Some 0), sample 2 (Some 1)]"]
  by (simp add: getGalleryItems_def sort_by_order_def order_or_0_def console_error_def
      example_defs)

subsection \<open>C4: save, then get\<close>

text \<open>
  Claim C4, as the code has it. Whenever the save is persisted (in the browser, with a
  storage that accepts the text), \<^verbatim>\<open>saveGalleryItems\<close> of a list \<open>x\<close> followed by
  \<^verbatim>\<open>getGalleryItems\<close> of the same gallery returns the normalised list (\<open>x\<close> with every item
  that lacks an order given its position) in the stable ascending sort by order: the
  result has the items of the normalised list, every order in it is defined, and the
  orders ascend.
\<close>

theorem save_then_get_roundtrip:
  assumes "window_defined w"
    and "storage_accepts w (storage_key t)
           (Encoded (map (\<lambda>(k, item). if order item = None then item\<lparr>order := Some (int k)\<rparr>
                                       else item) (enumerate 0 x)))"
  shows "fst (getGalleryItems t (saveGalleryItems t x w)) =
           sort_key (\<lambda>a. case order a of None \<Rightarrow> 0 | Some n \<Rightarrow> n)
             (map (\<lambda>(k, item). if order item = None then item\<lparr>order := Some (int k)\<rparr> else item)
                (enumerate 0 x))
       \<and> mset (fst (getGalleryItems t (saveGalleryItems t x w))) =
           mset (map (\<lambda>(k, item). if order item = None then item\<lparr>order := Some (int k)\<rparr>
                                  else item) (enumerate 0 x))
       \<and> (\<exists>ks. map order (fst (getGalleryItems t (saveGalleryItems t x w))) = map Some ks
               \<and> sorted ks)"
proof -
  let ?w = "saveGalleryItems t x w"
  let ?n = "map (\<lambda>(k, item). if order item = None then item\<lparr>order := Some (int k)\<rparr> else item)
              (enumerate 0 x)"
  let ?key = "\<lambda>a. case order a of None \<Rightarrow> (0::int) | Some n \<Rightarrow> n"
  have n: "itemsWithOrder x = ?n" by (rule itemsWithOrder_explicit)
  have acc: "storage_accepts w (storage_key t) (Encoded (itemsWithOrder x))"
    using assms(2) unfolding n .
  have "localStorage ?w (storage_key t) = Some (Encoded (itemsWithOrder x))"
    using assms(1) acc by (simp add: saveGalleryItems_written)
  moreover have "window_defined ?w"
    using assms(1) acc by (simp add: saveGalleryItems_written)
  ultimately have "getGalleryItems t ?w = (sort_key order_or_0 (itemsWithOrder x), ?w)"
    by (rule getGalleryItems_Encoded [rotated])
  then have got: "fst (getGalleryItems t ?w) = sort_key ?key ?n"
    unfolding n order_or_0_explicit by simp
  have defined: "order a \<noteq> None" if "a \<in> set (sort_key ?key ?n)" for a
  proof -
    from that have "a \<in> set (itemsWithOrder x)" unfolding n by simp
    then obtain k where "k < length x" and "a = itemsWithOrder x ! k"
      by (auto simp: in_set_conv_nth)
    then show ?thesis by (simp add: order_itemsWithOrder)
  qed
  have "sorted (map ?key (sort_key ?key ?n))" by simp
  with defined have "\<exists>ks. map order (sort_key ?key ?n) = map Some ks \<and> sorted ks"
    by (rule sorted_orders)
  with got show ?thesis by simp
qed

text \<open>
  Orders 5, none, 3, 1: the second item gets order 1 and, the sort being stable, stays in
  front of the fourth.
\<close>

theorem save_then_get_roundtrip_witness:
  "window_defined (browser (\<lambda>k. None))
   \<and> storage_accepts (browser (\<lambda>k. None)) (storage_key Actividades)
        (Encoded (map (\<lambda>(k, item). if order item = None then item\<lparr>order := Some (int k)\<rparr>
                                    else item)
                    (enumerate 0 [sample 7 (Some 5), sample 8 None, sample 9 (Some 3),
                                  sample 6 (Some 1)])))
   \<and> fst (getGalleryItems Actividades
        (saveGalleryItems Actividades
           [sample 7 (Some 5), sample 8 None, sample 9 (Some 3), sample 6 (Some 1)]
           (browser (\<lambda>k. None)))) =
       [sample 8 (Some 1), sample 6 (Some 1), sample 9 (Some 3), sample 7 (Some 5)]"
  using save_then_get_roundtrip
    [of "browser (\<lambda>k. None)" Actividades
        "[sample 7 (Some 5), sample 8 None, sample 9 (Some 3), sample 6 (Some 1)]"]
  by (simp add: example_defs)

text \<open>
  The statement for every save fails where the storage refuses the write (the quota is
  exceeded): the \<^verbatim>\<open>catch\<close> of \<^verbatim>\<open>saveGalleryItems\<close> logs, nothing is stored, and the read that
  follows returns the two seed items of the gallery, not the one item saved.
\<close>

theorem save_refused_then_get_gives_seed:
  "fst (getGalleryItems Eventos
      (saveGalleryItems Eventos [sample 7 (Some 0)] (refusing (\<lambda>k. None)))) =
     INITIAL_GALLERIES Eventos
   \<and> length (INITIAL_GALLERIES Eventos) = 2
   \<and> localStorage (saveGalleryItems Eventos [sample 7 (Some 0)] (refusing (\<lambda>k. None)))
        (storage_key Eventos) = None
   \<and> console (saveGalleryItems Eventos [sample 7 (Some 0)] (refusing (\<lambda>k. None))) =
       [''Error saving gallery eventos to localStorage:'']"
  by (simp add: saveGalleryItems_def getGalleryItems_def console_error_def refusing_def
      INITIAL_GALLERIES_def example_defs)

subsection \<open>C5: what getGalleryItems returns\<close>

text \<open>
  Claim C5. A gallery has a persisted entry when the code runs in the browser and the
  storage has the gallery's key; on the server there is no storage. \<^verbatim>\<open>getGalleryItems\<close>
  returns the seed data when there is no persisted entry; when the entry parses to a
  list, that list in the stable sort that is ascending in the order of the items, an item
  without order counting as order 0; and the seed data again when the entry does not
  parse. It returns in every case.
\<close>

theorem getGalleryItems_cases:
  "(\<not> window_defined w \<or> localStorage w (storage_key t) = None \<longrightarrow>
      fst (getGalleryItems t w) = INITIAL_GALLERIES t)
 \<and> (window_defined w \<and> localStorage w (storage_key t) = Some s \<and> JSON_parse s = Some xs \<longrightarrow>
      fst (getGalleryItems t w) = sort_key (\<lambda>a. case order a of None \<Rightarrow> 0 | Some n \<Rightarrow> n) xs
    \<and> sorted (map (\<lambda>a. case order a of None \<Rightarrow> 0 | Some n \<Rightarrow> n) (fst (getGalleryItems t w)))
    \<and> mset (fst (getGalleryItems t w)) = mset xs)
 \<and> (window_defined w \<and> localStorage w (storage_key t) = Some s \<and> JSON_parse s = None \<longrightarrow>
      fst (getGalleryItems t w) = INITIAL_GALLERIES t)"
proof (intro conjI impI)
  assume "\<not> window_defined w \<or> localStorage w (storage_key t) = None"
  then show "fst (getGalleryItems t w) = INITIAL_GALLERIES t"
    by (auto simp: getGalleryItems_def)
next
  assume a: "window_defined w \<and> localStorage w (storage_key t) = Some s \<and> JSON_parse s = Some xs"
  then have s: "s = Encoded xs" by (cases s) simp_all
  with a have got: "fst (getGalleryItems t w) =
      sort_key (\<lambda>a. case order a of None \<Rightarrow> 0 | Some n \<Rightarrow> n) xs"
    by (simp add: getGalleryItems_Encoded order_or_0_explicit)
  show "fst (getGalleryItems t w) = sort_key (\<lambda>a. case order a of None \<Rightarrow> 0 | Some n \<Rightarrow> n) xs"
    by (rule got)
  show "sorted (map (\<lambda>a. case order a of None \<Rightarrow> 0 | Some n \<Rightarrow> n) (fst (getGalleryItems t w)))"
    unfolding got by simp
  show "mset (fst (getGalleryItems t w)) = mset xs"
    unfolding got by simp
next
  assume a: "window_defined w \<and> localStorage w (storage_key t) = Some s \<and> JSON_parse s = None"
  then obtain str where "s = Malformed str" by (cases s) simp_all
  with a show "fst (getGalleryItems t w) = INITIAL_GALLERIES t"
    by (simp add: getGalleryItems_def)
qed

text \<open>
  No entry in the browser; the server; an entry with the orders 3, 0, none and -1, where
  the item without order goes behind the one with order 0 and in front of nothing less;
  an entry that is not JSON.
\<close>

theorem getGalleryItems_cases_witness:
  "localStorage (browser (\<lambda>k. None)) (storage_key Hero) = None
   \<and> fst (getGalleryItems Hero (browser (\<lambda>k. None))) = INITIAL_GALLERIES Hero
   \<and> \<not> window_defined server
   \<and> fst (getGalleryItems Hero server) = INITIAL_GALLERIES Hero
   \<and> window_defined (stored Hero [sample 7 (Some 3), sample 8 (Some 0), sample 9 None,
                                   sample 6 (Some (- 1))])
   \<and> localStorage (stored Hero [sample 7 (Some 3), sample 8 (Some 0), sample 9 None,
                                 sample 6 (Some (- 1))]) (storage_key Hero) =
       Some (Encoded [sample 7 (Some 3), sample 8 (Some 0), sample 9 None, sample 6 (Some (- 1))])
   \<and> JSON_parse (Encoded [sample 7 (Some 3), sample 8 (Some 0), sample 9 None,
                           sample 6 (Some (- 1))]) =
       Some [sample 7 (Some 3), sample 8 (Some 0), sample 9 None, sample 6 (Some (- 1))]
   \<and> fst (getGalleryItems Hero (stored Hero [sample 7 (Some 3), sample 8 (Some 0), sample 9 None,
                                              sample 6 (Some (- 1))])) =
       [sample 6 (Some (- 1)), sample 8 (Some 0), sample 9 None, sample 7 (Some 3)]
   \<and> window_defined (browser ((\<lambda>k. None)(storage_key Hero \<mapsto> Malformed ''[{'')))
   \<and> localStorage (browser ((\<lambda>k. None)(storage_key Hero \<mapsto> Malformed ''[{'')))
        (storage_key Hero) = Some (Malformed ''[{'')
   \<and> JSON_parse (Malformed ''[{'') = None
   \<and> fst (getGalleryItems Hero (browser ((\<lambda>k. None)(storage_key Hero \<mapsto> Malformed ''[{'')))) =
       INITIAL_GALLERIES Hero"
  using getGalleryItems_cases [of "browser (\<lambda>k. None)" Hero]
    getGalleryItems_cases [of server Hero]
    getGalleryItems_cases
      [of "stored Hero [sample 7 (Some 3), sample 8 (Some 0), sample 9 None, sample 6 (Some (- 1))]"
          Hero
          "Encoded [sample 7 (Some 3), sample 8 (Some 0), sample 9 None, sample 6 (Some (- 1))]"
          "[sample 7 (Some 3), sample 8 (Some 0), sample 9 None, sample 6 (Some (- 1))]"]
    getGalleryItems_cases [of "browser ((\<lambda>k. None)(storage_key Hero \<mapsto> Malformed ''[{''))" Hero
      "Malformed ''[{''"]
  by (simp add: server_def example_defs)

subsection \<open>C6: MoveUp and MoveDown\<close>

text \<open>
  Claim C6, as the code has it. \<^verbatim>\<open>handleMoveUp\<close> at index 0 and \<^verbatim>\<open>handleMoveDown\<close> at the last
  index leave the state as it is. At any other position of the list the item and its
  neighbour change places, each of the two gets its new position as its order (whatever
  orders the two carried before), every other item is unchanged, and the new list is
  handed to the parent.
\<close>

theorem move_swaps_and_renumbers:
  "handleMoveUp 0 m = Some m
   \<and> handleMoveDown (int (length (galleryItems m)) - 1) m = Some m
   \<and> (0 < i \<and> i < length (galleryItems m) \<longrightarrow>
        (\<exists>m'. handleMoveUp (int i) m = Some m'
           \<and> updates m' = updates m @ [galleryItems m']
           \<and> length (galleryItems m') = length (galleryItems m)
           \<and> galleryItems m' ! (i - 1) = (galleryItems m ! i)\<lparr>order := Some (int i - 1)\<rparr>
           \<and> galleryItems m' ! i = (galleryItems m ! (i - 1))\<lparr>order := Some (int i)\<rparr>
           \<and> (\<forall>k<length (galleryItems m). k \<noteq> i \<and> k \<noteq> i - 1 \<longrightarrow>
                  galleryItems m' ! k = galleryItems m ! k)))
   \<and> (i + 1 < length (galleryItems m) \<longrightarrow>
        (\<exists>m'. handleMoveDown (int i) m = Some m'
           \<and> updates m' = updates m @ [galleryItems m']
           \<and> length (galleryItems m') = length (galleryItems m)
           \<and> galleryItems m' ! (i + 1) = (galleryItems m ! i)\<lparr>order := Some (int i + 1)\<rparr>
           \<and> galleryItems m' ! i = (galleryItems m ! (i + 1))\<lparr>order := Some (int i)\<rparr>
           \<and> (\<forall>k<length (galleryItems m). k \<noteq> i \<and> k \<noteq> i + 1 \<longrightarrow>
                  galleryItems m' ! k = galleryItems m ! k)))"
proof (intro conjI impI)
  show "handleMoveUp 0 m = Some m"
    by (simp add: handleMoveUp_def)
  show "handleMoveDown (int (length (galleryItems m)) - 1) m = Some m"
    by (simp add: handleMoveDown_def)
next
  assume "0 < i \<and> i < length (galleryItems m)"
  then show "\<exists>m'. handleMoveUp (int i) m = Some m'
           \<and> updates m' = updates m @ [galleryItems m']
           \<and> length (galleryItems m') = length (galleryItems m)
           \<and> galleryItems m' ! (i - 1) = (galleryItems m ! i)\<lparr>order := Some (int i - 1)\<rparr>
           \<and> galleryItems m' ! i = (galleryItems m ! (i - 1))\<lparr>order := Some (int i)\<rparr>
           \<and> (\<forall>k<length (galleryItems m). k \<noteq> i \<and> k \<noteq> i - 1 \<longrightarrow>
                  galleryItems m' ! k = galleryItems m ! k)"
    using handleMoveUp_swap [of i m] by blast
next
  assume "i + 1 < length (galleryItems m)"
  then show "\<exists>m'. handleMoveDown (int i) m = Some m'
           \<and> updates m' = updates m @ [galleryItems m']
           \<and> length (galleryItems m') = length (galleryItems m)
           \<and> galleryItems m' ! (i + 1) = (galleryItems m ! i)\<lparr>order := Some (int i + 1)\<rparr>
           \<and> galleryItems m' ! i = (galleryItems m ! (i + 1))\<lparr>order := Some (int i)\<rparr>
           \<and> (\<forall>k<length (galleryItems m). k \<noteq> i \<and> k \<noteq> i + 1 \<longrightarrow>
                  galleryItems m' ! k = galleryItems m ! k)"
    using handleMoveDown_swap [of i m] by blast
qed

text \<open>Three items with the orders 0, 1, 2; the middle one moved up, and moved down.\<close>

theorem move_swaps_and_renumbers_witness:
  "0 < (1::nat)
   \<and> 1 < length (galleryItems
        (mounted [sample 10 (Some 0), sample 20 (Some 1), sample 30 (Some 2)] empty_form))
   \<and> 1 + 1 < length (galleryItems
        (mounted [sample 10 (Some 0), sample 20 (Some 1), sample 30 (Some 2)] empty_form))
   \<and> map_option galleryItems
        (handleMoveUp 1
          (mounted [sample 10 (Some 0), sample 20 (Some 1), sample 30 (Some 2)] empty_form)) =
       Some [sample 20 (Some 0), sample 10 (Some 1), sample 30 (Some 2)]
   \<and> map_option galleryItems
        (handleMoveDown 1
          (mounted [sample 10 (Some 0), sample 20 (Some 1), sample 30 (Some 2)] empty_form)) =
       Some [sample 10 (Some 0), sample 30 (Some 1), sample 20 (Some 2)]"
  using move_swaps_and_renumbers
    [where m = "mounted [sample 10 (Some 0), sample 20 (Some 1), sample 30 (Some 2)] empty_form"
       and i = 1]
  by (simp add: handleMoveUp_def handleMoveDown_def example_defs)

text \<open>
  Two items with the orders 5 and 9. Moving the second up gives the orders 0 and 1: the
  two order values were not exchanged, in whichever direction one reads the exchange.
\<close>

theorem move_up_renumbers_not_swaps:
  "map_option galleryItems
     (handleMoveUp 1 (mounted [sample 10 (Some 5), sample 20 (Some 9)] empty_form)) =
     Some [sample 20 (Some 0), sample 10 (Some 1)]
   \<and> map order [sample 20 (Some 0), sample 10 (Some 1)] \<noteq> [Some 5, Some 9]
   \<and> map order [sample 20 (Some 0), sample 10 (Some 1)] \<noteq> [Some 9, Some 5]"
  by (simp add: handleMoveUp_def example_defs)

subsection \<open>C7: ToggleFeatured twice\<close>

text \<open>
  Claim C7, as the code has it. In a list with distinct identifiers,
  \<^verbatim>\<open>handleToggleFeatured\<close> on an item of the list replaces that item by itself with the flag
  negated and leaves every other item as it is; applied again to the item as the list now
  has it, it brings the item back with the flag \<open>Some b\<close> when the flag was \<open>Some b\<close>, and
  with the flag \<open>Some False\<close> when the flag was absent. No item's order changes.
\<close>

theorem toggle_featured_twice:
  assumes "distinct (map id_item (galleryItems m))" and "item \<in> set (galleryItems m)"
  shows "galleryItems (handleToggleFeatured item m) =
           map (\<lambda>j. if j = item then item\<lparr>featured := Some (not_featured item)\<rparr> else j)
             (galleryItems m)
       \<and> item\<lparr>featured := Some (not_featured item)\<rparr>
           \<in> set (galleryItems (handleToggleFeatured item m))
       \<and> galleryItems (handleToggleFeatured (item\<lparr>featured := Some (not_featured item)\<rparr>)
            (handleToggleFeatured item m)) =
           map (\<lambda>j. if j = item
                    then item\<lparr>featured := Some (case featured item of None \<Rightarrow> False | Some b \<Rightarrow> b)\<rparr>
                    else j)
             (galleryItems m)
       \<and> map order (galleryItems (handleToggleFeatured item m)) = map order (galleryItems m)
       \<and> map order (galleryItems (handleToggleFeatured (item\<lparr>featured := Some (not_featured item)\<rparr>)
            (handleToggleFeatured item m))) = map order (galleryItems m)"
proof -
  let ?item1 = "item\<lparr>featured := Some (not_featured item)\<rparr>"
  let ?m1 = "handleToggleFeatured item m"
  have one: "galleryItems ?m1 = map (\<lambda>j. if j = item then ?item1 else j) (galleryItems m)"
    by (rule toggle_once [OF assms])
  have ids: "map id_item (galleryItems ?m1) = map id_item (galleryItems m)"
    unfolding one by (auto intro!: map_cong simp: comp_def)
  have mem: "?item1 \<in> set (galleryItems ?m1)"
    unfolding one using assms(2) by (auto simp: image_iff)
  have d1: "distinct (map id_item (galleryItems ?m1))"
    using assms(1) ids by simp
  have nf: "not_featured ?item1 = (case featured item of None \<Rightarrow> False | Some b \<Rightarrow> b)"
    by (simp add: not_featured_def split: option.splits)
  have two: "galleryItems (handleToggleFeatured ?item1 ?m1) =
      map (\<lambda>j. if j = item
                then item\<lparr>featured := Some (case featured item of None \<Rightarrow> False | Some b \<Rightarrow> b)\<rparr>
                else j) (galleryItems m)"
  proof -
    have other: "j \<noteq> ?item1" if "j \<in> set (galleryItems m)" and "j \<noteq> item" for j
    proof
      assume "j = ?item1"
      then have "id_item j = id_item item" by simp
      with same_id_same_item [OF assms that(1)] that(2) show False by simp
    qed
    show ?thesis
      unfolding toggle_once [OF d1 mem] nf unfolding one
      using other by (auto intro!: map_cong simp: comp_def)
  qed
  have o1: "map order (galleryItems ?m1) = map order (galleryItems m)"
    unfolding one by (auto intro!: map_cong simp: comp_def)
  have o2: "map order (galleryItems (handleToggleFeatured ?item1 ?m1)) =
      map order (galleryItems m)"
    unfolding two by (auto intro!: map_cong simp: comp_def)
  from one mem two o1 o2 show ?thesis by blast
qed

text \<open>A featured item, toggled off and on again, next to an item that stays as it is.\<close>

theorem toggle_featured_twice_witness:
  "distinct (map id_item (galleryItems
      (mounted [sample 10 (Some 0), (sample 20 (Some 1))\<lparr>featured := Some True\<rparr>] empty_form)))
   \<and> (sample 20 (Some 1))\<lparr>featured := Some True\<rparr>
        \<in> set (galleryItems
            (mounted [sample 10 (Some 0), (sample 20 (Some 1))\<lparr>featured := Some True\<rparr>] empty_form))
   \<and> galleryItems (handleToggleFeatured ((sample 20 (Some 1))\<lparr>featured := Some True\<rparr>)
        (mounted [sample 10 (Some 0), (sample 20 (Some 1))\<lparr>featured := Some True\<rparr>] empty_form)) =
       [sample 10 (Some 0), (sample 20 (Some 1))\<lparr>featured := Some False\<rparr>]
   \<and> galleryItems (handleToggleFeatured ((sample 20 (Some 1))\<lparr>featured := Some False\<rparr>)
        (handleToggleFeatured ((sample 20 (Some 1))\<lparr>featured := Some True\<rparr>)
          (mounted [sample 10 (Some 0), (sample 20 (Some 1))\<lparr>featured := Some True\<rparr>]
             empty_form))) =
       [sample 10 (Some 0), (sample 20 (Some 1))\<lparr>featured := Some True\<rparr>]"
  using toggle_featured_twice
    [where m = "mounted [sample 10 (Some 0), (sample 20 (Some 1))\<lparr>featured := Some True\<rparr>] empty_form"
       and item = "(sample 20 (Some 1))\<lparr>featured := Some True\<rparr>"]
  by (simp add: not_featured_def example_defs)

text \<open>
  An item without the flag, as every seed item and every added item is: after the first
  toggle the flag is \<^verbatim>\<open>true\<close>, after the second it is \<^verbatim>\<open>false\<close>, which is not the absent flag
  the item started with.
\<close>

theorem toggle_twice_absent_flag:
  "featured (sample 10 (Some 0)) = None
   \<and> galleryItems (handleToggleFeatured (sample 10 (Some 0))
        (mounted [sample 10 (Some 0)] empty_form)) =
       [(sample 10 (Some 0))\<lparr>featured := Some True\<rparr>]
   \<and> galleryItems (handleToggleFeatured ((sample 10 (Some 0))\<lparr>featured := Some True\<rparr>)
        (handleToggleFeatured (sample 10 (Some 0)) (mounted [sample 10 (Some 0)] empty_form))) =
       [(sample 10 (Some 0))\<lparr>featured := Some False\<rparr>]
   \<and> featured ((sample 10 (Some 0))\<lparr>featured := Some False\<rparr>) \<noteq> featured (sample 10 (Some 0))"
  by (simp add: handleToggleFeatured_def not_featured_def example_defs)

subsection \<open>C8: Add\<close>

text \<open>
  Claim C8. An Add with non-empty title and non-empty description appends exactly one
  item, whose order is the length the list had (and whose identifier, title and
  description are the time stamp and the form's), whatever happens to the image and to
  the parent's callback. An Add with an empty title or an empty description leaves the
  list as it is, hands nothing to the parent and sets the validation message, with the
  timer that clears it.
\<close>

theorem add_appends_or_rejects:
  "(title (newItem m) \<noteq> [] \<and> description (newItem m) \<noteq> [] \<longrightarrow>
      (\<exists>item. galleryItems (handleAddGalleryItem now resolve onUpdateGallery m) =
                 galleryItems m @ [item]
             \<and> order item = Some (int (length (galleryItems m)))
             \<and> id_item item = now
             \<and> title item = title (newItem m)
             \<and> description item = description (newItem m))
    \<and> length (galleryItems (handleAddGalleryItem now resolve onUpdateGallery m)) =
        Suc (length (galleryItems m)))
 \<and> (title (newItem m) = [] \<or> description (newItem m) = [] \<longrightarrow>
      galleryItems (handleAddGalleryItem now resolve onUpdateGallery m) = galleryItems m
    \<and> updates (handleAddGalleryItem now resolve onUpdateGallery m) = updates m
    \<and> uploadError (handleAddGalleryItem now resolve onUpdateGallery m) =
        ''Por favor complete todos los campos''
    \<and> timers (handleAddGalleryItem now resolve onUpdateGallery m) =
        timers m @ [(Clear_uploadError, 3000)])"
  by (auto simp: handleAddGalleryItem_def Let_def split: option.splits)

text \<open>A filled form added to a one-item list, and the empty form rejected.\<close>

theorem add_appends_or_rejects_witness:
  "title (newItem (mounted [sample 10 (Some 0)] blob_form)) \<noteq> []
   \<and> description (newItem (mounted [sample 10 (Some 0)] blob_form)) \<noteq> []
   \<and> length (galleryItems (handleAddGalleryItem 1700000000000 (\<lambda>url. None) (\<lambda>items. True)
        (mounted [sample 10 (Some 0)] blob_form))) = 2
   \<and> map order (galleryItems (handleAddGalleryItem 1700000000000 (\<lambda>url. None) (\<lambda>items. True)
        (mounted [sample 10 (Some 0)] blob_form))) = [Some 0, Some 1]
   \<and> title (newItem (mounted [sample 10 (Some 0)] empty_form)) = []
   \<and> galleryItems (handleAddGalleryItem 1700000000000 (\<lambda>url. None) (\<lambda>items. True)
        (mounted [sample 10 (Some 0)] empty_form)) = [sample 10 (Some 0)]
   \<and> uploadError (handleAddGalleryItem 1700000000000 (\<lambda>url. None) (\<lambda>items. True)
        (mounted [sample 10 (Some 0)] empty_form)) = ''Por favor complete todos los campos''"
  using add_appends_or_rejects [where m = "mounted [sample 10 (Some 0)] blob_form"
      and now = 1700000000000 and resolve = "\<lambda>url. None" and onUpdateGallery = "\<lambda>items. True"]
    add_appends_or_rejects [where m = "mounted [sample 10 (Some 0)] empty_form"
      and now = 1700000000000 and resolve = "\<lambda>url. None" and onUpdateGallery = "\<lambda>items. True"]
  by (auto simp: blob_form_def empty_form_def example_defs)

subsection \<open>C9: Delete\<close>

text \<open>
  Claim C9. After \<^verbatim>\<open>handleDeleteItem\<close> no item of the list has the deleted identifier, the
  orders of the list are \<open>0, 1, ..., n - 1\<close> in sequence (so without gap or duplicate), and
  apart from their orders the items are the items of the old list with another
  identifier, in the sequence they had. The new list is handed to the parent.
\<close>

theorem delete_reindexes:
  "i \<notin> id_item ` set (galleryItems (handleDeleteItem i m))
   \<and> map order (galleryItems (handleDeleteItem i m)) =
       map (\<lambda>k. Some (int k)) [0..<length (galleryItems (handleDeleteItem i m))]
   \<and> map (\<lambda>x. x\<lparr>order := None\<rparr>) (galleryItems (handleDeleteItem i m)) =
       map (\<lambda>x. x\<lparr>order := None\<rparr>) (filter (\<lambda>x. id_item x \<noteq> i) (galleryItems m))
   \<and> updates (handleDeleteItem i m) = updates m @ [galleryItems (handleDeleteItem i m)]"
proof -
  let ?kept = "filter (\<lambda>x. id_item x \<noteq> i) (galleryItems m)"
  have g: "galleryItems (handleDeleteItem i m) =
             map_index (\<lambda>item index. item\<lparr>order := Some (int index)\<rparr>) ?kept"
    by (simp add: handleDeleteItem_def Let_def)
  have "i \<notin> id_item ` set ?kept" by auto
  then have "i \<notin> id_item ` set (galleryItems (handleDeleteItem i m))"
    unfolding g set_map_index_id .
  moreover have "map order (galleryItems (handleDeleteItem i m)) =
       map (\<lambda>k. Some (int k)) [0..<length (galleryItems (handleDeleteItem i m))]"
    unfolding g using map_index_order_positions [of ?kept] by simp
  moreover have "map (\<lambda>x. x\<lparr>order := None\<rparr>) (galleryItems (handleDeleteItem i m)) =
       map (\<lambda>x. x\<lparr>order := None\<rparr>) ?kept"
    unfolding g by (rule map_index_order_erased)
  moreover have "updates (handleDeleteItem i m) =
       updates m @ [galleryItems (handleDeleteItem i m)]"
    by (simp add: handleDeleteItem_def Let_def)
  ultimately show ?thesis by blast
qed

text \<open>Deleting the middle one of three items.\<close>

theorem delete_reindexes_example:
  "galleryItems (handleDeleteItem 20
      (mounted [sample 10 (Some 0), sample 20 (Some 1), sample 30 (Some 2)] empty_form)) =
     [sample 10 (Some 0), sample 30 (Some 1)]"
  using delete_reindexes [where i = 20
      and m = "mounted [sample 10 (Some 0), sample 20 (Some 1), sample 30 (Some 2)] empty_form"]
  by (simp add: handleDeleteItem_def map_index_def example_defs)

subsection \<open>C10: Edit with an identifier no item has\<close>




end
